theory Spec2Isabelle
  imports Main
begin

section \<open>The GitHub notifier plugin of reg-suit\<close>

text \<open>
  A shallow embedding of \<^verbatim>\<open>packages/reg-notify-github-plugin/src/github-notifier-plugin.ts\<close>.
  The plugin reads the repository HEAD, derives a commit state from the comparison
  result, and talks to GitHub through three Octokit calls. The remote service, the
  repository reader and the logger are collaborators of the plugin: the HEAD that was
  read and the answers of the remote service are arguments of the model, and the
  remote calls issued and the lines logged are part of its result.
\<close>

subsection \<open>JavaScript values and strings\<close>

text \<open>
  An option of the plugin comes from a JSON configuration, so a flag declared as
  \<^verbatim>\<open>prComment?: boolean\<close> can hold any value at run time.
\<close>

datatype js_value = JUndefined | JNull | JBool bool | JNum int | JStr string

text \<open>Truthiness of an optional string: \<^verbatim>\<open>undefined\<close> and \<^verbatim>\<open>""\<close> are falsy.\<close>

definition truthy :: "string option \<Rightarrow> bool" where
  "truthy s = (case s of None \<Rightarrow> False | Some t \<Rightarrow> t \<noteq> [])"

text \<open>An optional string inside a template literal: \<^verbatim>\<open>undefined\<close> prints its name.\<close>

definition tmpl :: "string option \<Rightarrow> string" where
  "tmpl s = (case s of None \<Rightarrow> ''undefined'' | Some t \<Rightarrow> t)"

text \<open>
  A count inside a template literal. The counts are array lengths, which JavaScript
  prints in plain decimal.
\<close>

definition digit_char :: "nat \<Rightarrow> char" where
  "digit_char d = ''0123456789'' ! d"

fun show_nat :: "nat \<Rightarrow> string" where
  "show_nat n = (if n < 10 then [digit_char n] else show_nat (n div 10) @ [digit_char (n mod 10)])"

declare show_nat.simps [simp del]

text \<open>
  \<^verbatim>\<open>String.prototype.split\<close> with a one-character separator: the pieces between
  the separators, a single empty piece for the empty string.
\<close>

fun split_on :: "char \<Rightarrow> string \<Rightarrow> string list" where
  "split_on c [] = [[]]"
| "split_on c (x # xs) =
     (if x = c then [] # split_on c xs
      else (case split_on c xs of
              [] \<Rightarrow> [[x]]
            | piece # pieces \<Rightarrow> (x # piece) # pieces))"

definition newline :: char where
  "newline = CHR 0x0A"

text \<open>The lines of a text are its pieces between line feeds.\<close>

definition lines_of :: "string \<Rightarrow> string list" where
  "lines_of s = split_on newline s"

subsection \<open>The comparison outcome (lines 92 to 98 of the source)\<close>

record ComparisonResult =
  failedItems :: "string list"
  newItems :: "string list"
  deletedItems :: "string list"
  passedItems :: "string list"

text \<open>
  \<^verbatim>\<open>const state = failedItemsCount + newItemsCount + deletedItemsCount === 0 ? "success" : "failure";\<close>
  \<^verbatim>\<open>const description = state === "success" ? "Regression testing passed" : "Regression testing failed";\<close>
\<close>

definition state_of :: "ComparisonResult \<Rightarrow> string" where
  "state_of r =
     (let failedItemsCount = length (failedItems r);
          newItemsCount = length (newItems r);
          deletedItemsCount = length (deletedItems r);
          passedItemsCount = length (passedItems r)
      in if failedItemsCount + newItemsCount + deletedItemsCount = 0
         then ''success'' else ''failure'')"

definition description_of :: "string \<Rightarrow> string" where
  "description_of state =
     (if state = ''success'' then ''Regression testing passed''
      else ''Regression testing failed'')"

subsection \<open>The comment body (lines 208 to 217)\<close>

datatype PrCommentBehavior = BehaviorDefault | BehaviorOnce | BehaviorNew

text \<open>
  \<^verbatim>\<open>BaseEventBody\<close> of the GitHub app interface. When no client id is configured the
  options object itself is used, so each field may be missing.
\<close>

record BaseEventBody =
  owner :: "string option"
  repository :: "string option"
  installationId :: "string option"

record CommentToPrBody = BaseEventBody +
  behavior :: PrCommentBehavior
  branchName :: string
  headOid :: string
  failedItemsCount :: nat
  newItemsCount :: nat
  deletedItemsCount :: nat
  passedItemsCount :: nat
  shortDescription :: bool
  regconfigId :: string
  reportUrl :: "string option"

text \<open>
  The template literal of \<^verbatim>\<open>_createCommentBody\<close>, piece by piece. Every line after the
  first starts with the four blanks of the source's indentation; the last two lines
  hold a conditional piece each, which is empty when its condition is falsy.
\<close>

definition createCommentBody :: "CommentToPrBody \<Rightarrow> string" where
  "createCommentBody body =
     ''Comparison result:'' @ [newline] @
     ''    - Failed items: '' @ show_nat (failedItemsCount body) @ [newline] @
     ''    - New items: '' @ show_nat (newItemsCount body) @ [newline] @
     ''    - Deleted items: '' @ show_nat (deletedItemsCount body) @ [newline] @
     ''    - Passed items: '' @ show_nat (passedItemsCount body) @ [newline] @
     ''    '' @ (if shortDescription body then '' - Short descriptions enabled'' else '''') @ [newline] @
     ''    '' @ (if truthy (reportUrl body)
                 then '' - [Report URL]('' @ tmpl (reportUrl body) @ '')'' else '''')"

subsection \<open>Thrown values and the error handler (lines 24 to 45)\<close>

text \<open>
  A value thrown by a remote call, as far as the handler looks at it: its
  \<^verbatim>\<open>name\<close> (empty when the value has none), and for a
  \<^verbatim>\<open>GhAppStatusCodeError\<close> its status code and the message of its \<^verbatim>\<open>error\<close> object.
\<close>

record Reason =
  name :: string
  statusCode :: int
  error_message :: string

text \<open>\<^verbatim>\<open>return x.name && x.name === "StatusCodeError";\<close>\<close>

definition isGhAppError :: "Reason \<Rightarrow> bool" where
  "isGhAppError x = (name x \<noteq> [] \<and> name x = ''StatusCodeError'')"

text \<open>
  What a rejected promise carries: the \<^verbatim>\<open>error\<close> object of a status code error
  (known by its message), or the thrown value as it is.
\<close>

datatype Rejection = ErrorObject string | Thrown Reason

datatype Verbose = VReportUrl "string option" | VPullNumber nat

datatype LogEntry =
    LogInfo string
  | LogWarn string
  | LogError string
  | LogVerbose string Verbose
  | SpinnerStart
  | SpinnerStop

text \<open>The colour functions of the logger, which wrap a text in escape codes.\<close>

record PluginLogger =
  green :: "string \<Rightarrow> string"
  yellow :: "string \<Rightarrow> string"
  red :: "string \<Rightarrow> string"

text \<open>
  The handler logs the message of a status code error and rejects in both branches:
  the first component is what it logs, the second what its promise rejects with.
\<close>

definition errorHandler :: "Reason \<Rightarrow> LogEntry list \<times> Rejection" where
  "errorHandler reason =
     (if isGhAppError reason
      then ([LogError (error_message reason)], ErrorObject (error_message reason))
      else ([], Thrown reason))"

subsection \<open>The repository HEAD, the plugin and the remote service\<close>

text \<open>
  The reference that \<^verbatim>\<open>readHeadSync\<close> returns: a type tag, and a branch (with its
  name and the hash of its commit) or a commit (its hash), each of which may be absent.
\<close>

record Branch =
  branch_name :: string
  branch_commit_hash :: string

record Head =
  head_type :: string
  head_branch :: "Branch option"
  head_commit :: "string option"

record NotifyParams =
  comparisonResult :: ComparisonResult
  params_reportUrl :: "string option"

text \<open>The fields of the plugin instance that \<^verbatim>\<open>init\<close> sets and \<^verbatim>\<open>notify\<close> reads.\<close>

record Plugin =
  logger :: PluginLogger
  noEmit :: bool
  apiOpt :: BaseEventBody
  prComment :: bool
  setCommitStatus :: bool
  p_behavior :: PrCommentBehavior
  p_shortDescription :: bool
  p_regconfigId :: string
  apiPrefix :: string

record CreateCommitStatusParams =
  cs_owner :: "string option"
  cs_repo :: "string option"
  cs_sha :: string
  cs_state :: string
  cs_description :: string
  cs_context :: string
  cs_target_url :: "string option"

record PullsListParams =
  pl_owner :: "string option"
  pl_repo :: "string option"
  pl_head :: string

record CreateCommentParams =
  cc_owner :: "string option"
  cc_repo :: "string option"
  cc_issue_number :: nat
  cc_body :: string

text \<open>
  The remote service: what each of the three calls answers to a request, a thrown
  value (\<open>Inl\<close>) or its data. Of a pull request the plugin reads the number only.
\<close>

record Octokit =
  createCommitStatus :: "CreateCommitStatusParams \<Rightarrow> Reason + unit"
  pulls_list :: "PullsListParams \<Rightarrow> Reason + nat list"
  createComment :: "CreateCommentParams \<Rightarrow> Reason + unit"

datatype RemoteCall =
    CreateCommitStatus CreateCommitStatusParams
  | PullsList PullsListParams
  | CreateComment CreateCommentParams

datatype Result = Resolved | Rejected Rejection

text \<open>
  What one run of a piece of \<^verbatim>\<open>notify\<close> did: the requests sent to the remote service
  and the lines logged, both in order, and how the promise settled.
\<close>

record Outcome =
  result :: Result
  calls :: "RemoteCall list"
  log :: "LogEntry list"

subsection \<open>The notification (lines 90 to 205)\<close>

text \<open>
  Lines 101 to 108: the commit to report on, \<open>None\<close> where the source logs an error
  and returns.
\<close>

definition sha1_of :: "Head \<Rightarrow> string option" where
  "sha1_of head =
     (case head_branch head of
        Some b \<Rightarrow> Some (branch_commit_hash b)
      | None \<Rightarrow> (case head_commit head of Some h \<Rightarrow> Some h | None \<Rightarrow> None))"

text \<open>
  The request of lines 129 to 137. The object \<^verbatim>\<open>updateStatusBody\<close> that lines 110 to
  125 build is never read afterwards, so it has no counterpart here.
\<close>

definition statusParams :: "Plugin \<Rightarrow> NotifyParams \<Rightarrow> string \<Rightarrow> CreateCommitStatusParams" where
  "statusParams this params sha1 =
     \<lparr>cs_owner = owner (apiOpt this),
      cs_repo = repository (apiOpt this),
      cs_sha = sha1,
      cs_state = state_of (comparisonResult params),
      cs_description = description_of (state_of (comparisonResult params)),
      cs_context = ''regression-tests'',
      cs_target_url = params_reportUrl params\<rparr>"

text \<open>
  Lines 127 to 143. The \<^verbatim>\<open>catch\<close> block awaits the promise of the handler, which is
  rejected, so the block throws again and \<^verbatim>\<open>notify\<close> rejects there.
\<close>

definition statusPhase :: "Plugin \<Rightarrow> Octokit \<Rightarrow> NotifyParams \<Rightarrow> string \<Rightarrow> Outcome" where
  "statusPhase this octokit params sha1 =
     (if setCommitStatus this then
        (case createCommitStatus octokit (statusParams this params sha1) of
           Inr u \<Rightarrow>
             \<lparr>result = Resolved,
              calls = [CreateCommitStatus (statusParams this params sha1)],
              log = [LogInfo (''Updated commit status for '' @ green (logger this) sha1 @ '' .'')]\<rparr>
         | Inl err \<Rightarrow>
             \<lparr>result = Rejected (snd (errorHandler err)),
              calls = [CreateCommitStatus (statusParams this params sha1)],
              log = fst (errorHandler err)\<rparr>)
      else \<lparr>result = Resolved, calls = [], log = []\<rparr>)"

text \<open>Lines 147 to 161: the comment payload of a branch.\<close>

definition prCommentBody :: "Plugin \<Rightarrow> NotifyParams \<Rightarrow> Branch \<Rightarrow> string \<Rightarrow> CommentToPrBody" where
  "prCommentBody this params b sha1 =
     \<lparr>owner = owner (apiOpt this),
      repository = repository (apiOpt this),
      installationId = installationId (apiOpt this),
      behavior = p_behavior this,
      branchName = branch_name b,
      headOid = sha1,
      failedItemsCount = length (failedItems (comparisonResult params)),
      newItemsCount = length (newItems (comparisonResult params)),
      deletedItemsCount = length (deletedItems (comparisonResult params)),
      passedItemsCount = length (passedItems (comparisonResult params)),
      shortDescription = p_shortDescription this,
      regconfigId = p_regconfigId this,
      reportUrl = (if truthy (params_reportUrl params) then params_reportUrl params else None)\<rparr>"

definition listParams :: "Plugin \<Rightarrow> CommentToPrBody \<Rightarrow> PullsListParams" where
  "listParams this body =
     \<lparr>pl_owner = owner (apiOpt this),
      pl_repo = repository (apiOpt this),
      pl_head = tmpl (owner (apiOpt this)) @ '':'' @ branchName body\<rparr>"

definition commentParams :: "Plugin \<Rightarrow> CommentToPrBody \<Rightarrow> nat \<Rightarrow> CreateCommentParams" where
  "commentParams this body pr =
     \<lparr>cc_owner = owner (apiOpt this),
      cc_repo = repository (apiOpt this),
      cc_issue_number = pr,
      cc_body = createCommentBody body\<rparr>"

text \<open>
  Lines 145 to 197. One \<^verbatim>\<open>try\<close> block holds the lookup and the post, and its
  \<^verbatim>\<open>catch\<close> block throws again as the one of the status update does.
\<close>

definition commentPhase :: "Plugin \<Rightarrow> Octokit \<Rightarrow> Head \<Rightarrow> NotifyParams \<Rightarrow> string \<Rightarrow> Outcome" where
  "commentPhase this octokit head params sha1 =
     (if prComment this then
        (case (if head_type head = ''branch'' then head_branch head else None) of
           Some b \<Rightarrow>
             (let body = prCommentBody this params b sha1;
                  l0 = [LogVerbose ''params.reportUrl: '' (VReportUrl (params_reportUrl params))]
              in case pulls_list octokit (listParams this body) of
                   Inl err \<Rightarrow>
                     \<lparr>result = Rejected (snd (errorHandler err)),
                      calls = [PullsList (listParams this body)],
                      log = l0 @ fst (errorHandler err)\<rparr>
                 | Inr [] \<Rightarrow>
                     \<lparr>result = Resolved,
                      calls = [PullsList (listParams this body)],
                      log = l0 @ [LogWarn (''No pull request found for branch '' @
                                   yellow (logger this) (branchName body) @ ''.'')]\<rparr>
                 | Inr (pr # rest) \<Rightarrow>
                     (case createComment octokit (commentParams this body pr) of
                        Inl err \<Rightarrow>
                          \<lparr>result = Rejected (snd (errorHandler err)),
                           calls = [PullsList (listParams this body),
                                    CreateComment (commentParams this body pr)],
                           log = l0 @ [LogVerbose ''pr: '' (VPullNumber pr)] @ fst (errorHandler err)\<rparr>
                      | Inr u \<Rightarrow>
                          \<lparr>result = Resolved,
                           calls = [PullsList (listParams this body),
                                    CreateComment (commentParams this body pr)],
                           log = l0 @ [LogVerbose ''pr: '' (VPullNumber pr),
                                  LogInfo (''Commented on PR '' @
                                    green (logger this)
                                      (tmpl (owner (apiOpt this)) @ ''/'' @
                                       tmpl (repository (apiOpt this)) @ ''#'' @ show_nat pr) @
                                    '' .'')]\<rparr>))
         | None \<Rightarrow>
             \<lparr>result = Resolved, calls = [],
              log = [LogWarn ''HEAD is not attached into any branches.'']\<rparr>)
      else \<lparr>result = Resolved, calls = [], log = []\<rparr>)"

text \<open>
  Lines 199 to 204: the dry-run flag is read after both phases, and decides only
  whether the progress indicator is started and stopped. Nothing happens between the
  start and the stop; the text of the indicator is left out of the log entry.
\<close>

definition finish :: "Plugin \<Rightarrow> Outcome" where
  "finish this =
     (if noEmit this then \<lparr>result = Resolved, calls = [], log = []\<rparr>
      else \<lparr>result = Resolved, calls = [], log = [SpinnerStart, SpinnerStop]\<rparr>)"

text \<open>Sequencing: a piece that rejected ends the run, as a thrown exception does.\<close>

definition andThen :: "Outcome \<Rightarrow> Outcome \<Rightarrow> Outcome" where
  "andThen a b =
     (case result a of
        Rejected e \<Rightarrow> a
      | Resolved \<Rightarrow> \<lparr>result = result b, calls = calls a @ calls b, log = log a @ log b\<rparr>)"

definition notify :: "Plugin \<Rightarrow> Octokit \<Rightarrow> Head \<Rightarrow> NotifyParams \<Rightarrow> Outcome" where
  "notify this octokit head params =
     (case sha1_of head of
        None \<Rightarrow>
          \<lparr>result = Resolved, calls = [],
           log = [LogError ''Can't detect HEAD branch or commit.'']\<rparr>
      | Some sha1 \<Rightarrow>
          andThen (statusPhase this octokit params sha1)
            (andThen (commentPhase this octokit head params sha1) (finish this)))"

subsection \<open>Initialisation (lines 61 to 88)\<close>

record GitHubPluginOption =
  o_clientId :: "string option"
  o_installationId :: "string option"
  o_owner :: "string option"
  o_repository :: "string option"
  o_regconfigId :: "string option"
  o_prComment :: js_value
  o_prCommentBehavior :: "PrCommentBehavior option"
  o_setCommitStatus :: js_value
  o_customEndpoint :: "string option"
  o_shortDescription :: "bool option"

record PluginCreateOptions =
  c_noEmit :: bool
  c_logger :: PluginLogger
  c_options :: GitHubPluginOption

datatype InitError = InflateFailed | InvalidClientId string

text \<open>
  \<^verbatim>\<open>_decodeClientId\<close>. The argument \<open>inflate\<close> stands for decoding the base64 text and
  inflating it with zlib, which throws (\<open>None\<close>) on data that is not a deflate stream.
  The decoded text must have four pieces between slashes; the last three are the
  repository, the installation and the owner.
\<close>

definition decodeClientId ::
  "(string \<Rightarrow> string option) \<Rightarrow> PluginLogger \<Rightarrow> string \<Rightarrow> LogEntry list \<times> (InitError + BaseEventBody)" where
  "decodeClientId inflate lg clientId =
     (case inflate clientId of
        None \<Rightarrow> ([], Inl InflateFailed)
      | Some text \<Rightarrow>
          (case split_on CHR ''/'' text of
             [t0, t1, t2, t3] \<Rightarrow>
               ([], Inr \<lparr>owner = Some t3, repository = Some t1, installationId = Some t2\<rparr>)
           | _ \<Rightarrow>
               ([LogError (''Invalid client ID: '' @ red lg clientId)],
                Inl (InvalidClientId (''Invalid client ID: '' @ clientId)))))"

text \<open>\<^verbatim>\<open>x !== false\<close> on a run-time value.\<close>

definition not_false :: "js_value \<Rightarrow> bool" where
  "not_false v = (v \<noteq> JBool False)"

text \<open>\<^verbatim>\<open>x ?? d\<close> on a field that is absent or holds a value of its type.\<close>

definition nullish_or :: "'a option \<Rightarrow> 'a \<Rightarrow> 'a" where
  "nullish_or x d = (case x of None \<Rightarrow> d | Some v \<Rightarrow> v)"

text \<open>
  \<^verbatim>\<open>init\<close>. The argument \<open>endpoint\<close> is the endpoint of the GitHub app, used when no
  custom endpoint is configured. The repository reader and the Octokit client that
  \<^verbatim>\<open>init\<close> also creates are the arguments \<open>head\<close> and \<open>octokit\<close> of \<open>notify\<close>.
\<close>

definition init ::
  "(string \<Rightarrow> string option) \<Rightarrow> string \<Rightarrow> PluginCreateOptions \<Rightarrow> LogEntry list \<times> (InitError + Plugin)" where
  "init inflate endpoint config =
     (let opts = c_options config;
          decoded =
            (if truthy (o_clientId opts)
             then decodeClientId inflate (c_logger config) (tmpl (o_clientId opts))
             else ([], Inr \<lparr>owner = o_owner opts, repository = o_repository opts,
                            installationId = o_installationId opts\<rparr>))
      in case snd decoded of
           Inl e \<Rightarrow> (fst decoded, Inl e)
         | Inr api \<Rightarrow>
             (fst decoded,
              Inr \<lparr>logger = c_logger config,
                   noEmit = c_noEmit config,
                   apiOpt = api,
                   prComment = not_false (o_prComment opts),
                   setCommitStatus = not_false (o_setCommitStatus opts),
                   p_behavior = nullish_or (o_prCommentBehavior opts) BehaviorDefault,
                   p_shortDescription = nullish_or (o_shortDescription opts) False,
                   p_regconfigId = nullish_or (o_regconfigId opts) [],
                   apiPrefix = (if truthy (o_customEndpoint opts)
                                then tmpl (o_customEndpoint opts) else endpoint)\<rparr>))"

subsection \<open>The answer of the remote service to a request\<close>

text \<open>The value that the remote service throws at a request, if it throws one.\<close>

definition thrown_by :: "'e + 'a \<Rightarrow> 'e option" where
  "thrown_by answer = (case answer of Inl err \<Rightarrow> Some err | Inr v \<Rightarrow> None)"




subsection \<open>Concrete inputs\<close>

text \<open>
  The payload of the example of the specification: two failed, no new, one deleted and
  five passed items, no short descriptions, no report.
\<close>

definition example_body :: CommentToPrBody where
  "example_body =
     \<lparr>owner = Some ''acme'', repository = Some ''site'', installationId = Some ''42'',
      behavior = BehaviorDefault, branchName = ''feature'', headOid = ''abc123'',
      failedItemsCount = 2, newItemsCount = 0, deletedItemsCount = 1, passedItemsCount = 5,
      shortDescription = False, regconfigId = [], reportUrl = None\<rparr>"

definition example_logger :: PluginLogger where
  "example_logger = \<lparr>green = (\<lambda>s. s), yellow = (\<lambda>s. s), red = (\<lambda>s. s)\<rparr>"

text \<open>A plugin with both the commit status and the comment enabled, not in dry-run mode.\<close>

definition example_plugin :: Plugin where
  "example_plugin =
     \<lparr>logger = example_logger, noEmit = False,
      apiOpt = \<lparr>owner = Some ''acme'', repository = Some ''site'', installationId = Some ''42''\<rparr>,
      prComment = True, setCommitStatus = True, p_behavior = BehaviorDefault,
      p_shortDescription = False, p_regconfigId = [], apiPrefix = ''https://gh.example.org''\<rparr>"

definition example_params :: NotifyParams where
  "example_params =
     \<lparr>comparisonResult =
        \<lparr>failedItems = [''a.png'', ''b.png''], newItems = [], deletedItems = [''c.png''],
         passedItems = [''d.png'', ''e.png'', ''f.png'', ''g.png'', ''h.png'']\<rparr>,
      params_reportUrl = None\<rparr>"

definition branch_head :: Head where
  "branch_head =
     \<lparr>head_type = ''branch'',
      head_branch = Some \<lparr>branch_name = ''feature'', branch_commit_hash = ''abc123''\<rparr>,
      head_commit = None\<rparr>"

definition detached_head :: Head where
  "detached_head = \<lparr>head_type = ''commit'', head_branch = None, head_commit = Some ''def456''\<rparr>"


text \<open>A structured error of the remote service, and a thrown value of another shape.\<close>

definition bad_credentials :: Reason where
  "bad_credentials = \<lparr>name = ''StatusCodeError'', statusCode = 401, error_message = ''bad credentials''\<rparr>"

definition network_error :: Reason where
  "network_error = \<lparr>name = ''HttpError'', statusCode = 0, error_message = []\<rparr>"

text \<open>
  A remote service where every call succeeds and two pull requests, 7 and 9, match the
  branch; and variants of it where one call fails or no pull request matches.
\<close>

definition octokit_ok :: Octokit where
  "octokit_ok =
     \<lparr>createCommitStatus = (\<lambda>p. Inr ()), pulls_list = (\<lambda>p. Inr [7, 9]),
      createComment = (\<lambda>p. Inr ())\<rparr>"

definition octokit_status_fails :: Octokit where
  "octokit_status_fails = octokit_ok\<lparr>createCommitStatus := (\<lambda>p. Inl bad_credentials)\<rparr>"

definition octokit_list_fails :: Octokit where
  "octokit_list_fails = octokit_ok\<lparr>pulls_list := (\<lambda>p. Inl network_error)\<rparr>"

definition octokit_no_pr :: Octokit where
  "octokit_no_pr = octokit_ok\<lparr>pulls_list := (\<lambda>p. Inr [])\<rparr>"

text \<open>
  Options that name the repository and leave out everything else but the commit
  status, which holds a text instead of a truth value.
\<close>

definition example_config :: PluginCreateOptions where
  "example_config =
     \<lparr>c_noEmit = False, c_logger = example_logger,
      c_options =
        \<lparr>o_clientId = None, o_installationId = None, o_owner = Some ''acme'',
         o_repository = Some ''site'', o_regconfigId = None, o_prComment = JUndefined,
         o_prCommentBehavior = None, o_setCommitStatus = JStr ''off'',
         o_customEndpoint = None, o_shortDescription = None\<rparr>\<rparr>"

section \<open>Properties\<close>

subsection \<open>The comparison outcome\<close>

text \<open>
  Claim C4. The counts are the lengths of the four item lists, so every tuple of
  counts occurs. For all item lists the state is \<^verbatim>\<open>"failure"\<close> when the failed, new and
  deleted counts sum to more than zero and \<^verbatim>\<open>"success"\<close> otherwise; replacing the passed
  items never changes the state; the description is the fixed text
  \<^verbatim>\<open>"Regression testing passed"\<close> for the state \<^verbatim>\<open>"success"\<close> and
  \<^verbatim>\<open>"Regression testing failed"\<close> for the state \<^verbatim>\<open>"failure"\<close>, with no count in it.
\<close>

theorem state_and_description_from_counts:
  "state_of \<lparr>failedItems = fs, newItems = ns, deletedItems = ds, passedItems = ps\<rparr>
     = (if 0 < length fs + length ns + length ds then ''failure'' else ''success'')
   \<and> state_of \<lparr>failedItems = fs, newItems = ns, deletedItems = ds, passedItems = ps'\<rparr>
     = state_of \<lparr>failedItems = fs, newItems = ns, deletedItems = ds, passedItems = ps\<rparr>
   \<and> description_of ''success'' = ''Regression testing passed''
   \<and> description_of ''failure'' = ''Regression testing failed''
   \<and> description_of (state_of \<lparr>failedItems = fs, newItems = ns, deletedItems = ds, passedItems = ps\<rparr>)
     = (if 0 < length fs + length ns + length ds
        then ''Regression testing failed'' else ''Regression testing passed'')"
  by (simp add: state_of_def description_of_def)

subsection \<open>The comment body\<close>

lemma split_on_no_sep: "c \<notin> set a \<Longrightarrow> split_on c a = [a]"
  by (induction a) auto

lemma split_on_append: "c \<notin> set a \<Longrightarrow> split_on c (a @ c # b) = a # split_on c b"
  by (induction a) auto

lemma digit_char_not_newline: "d < 10 \<Longrightarrow> digit_char d \<noteq> newline"
proof -
  assume "d < 10"
  then have "d \<in> {0, 1, 2, 3, 4, 5, 6, 7, 8, 9}" by auto
  then show ?thesis by (auto simp: digit_char_def newline_def)
qed

text \<open>A printed count has no line feed, by computation induction on the printing.\<close>

lemma show_nat_no_newline: "newline \<notin> set (show_nat n)"
proof (induction n rule: show_nat.induct)
  case (1 n)
  show ?case
  proof (cases "n < 10")
    case True
    then show ?thesis
      using digit_char_not_newline [of n] by (simp add: show_nat.simps [of n])
  next
    case False
    then show ?thesis
      using 1 digit_char_not_newline [of "n mod 10"] by (simp add: show_nat.simps [of n])
  qed
qed

lemma count_line:
  "split_on newline (show_nat n @ newline # rest) = show_nat n # split_on newline rest"
  by (rule split_on_append [OF show_nat_no_newline])

text \<open>
  Claim C5 fails as stated: for the payload of the specification's example, with
  \<open>shortDescription = false\<close> and no report URL, the body is not the header and the four
  count lines alone. Two more lines follow, each holding the four blanks of the
  template's indentation.
\<close>

theorem comment_body_has_trailing_lines:
  "createCommentBody example_body \<noteq>
     ''Comparison result:\<newline>    - Failed items: 2\<newline>    - New items: 0\<newline>    - Deleted items: 1\<newline>    - Passed items: 5''
   \<and> lines_of (createCommentBody example_body) =
     [''Comparison result:'',
      ''    - Failed items: 2'',
      ''    - New items: 0'',
      ''    - Deleted items: 1'',
      ''    - Passed items: 5'',
      ''    '',
      ''    '']"
  by (simp add: example_body_def createCommentBody_def lines_of_def truthy_def newline_def
      show_nat.simps digit_char_def)

text \<open>
  Claim C5, amended. The body always has seven lines: the header, the four count lines
  in the order failed, new, deleted, passed, and two lines that start with the four
  blanks of the indentation. The first of the two ends there unless \<open>shortDescription\<close>
  is true, when the note on short descriptions follows the blanks; the second ends there
  unless a non-empty report URL is supplied, when the Markdown link follows the blanks.
  The report URL is assumed to hold no line feed.
\<close>

theorem comment_body_lines:
  "newline \<notin> set (tmpl (reportUrl body)) \<Longrightarrow>
   lines_of (createCommentBody body) =
     [''Comparison result:'',
      ''    - Failed items: '' @ show_nat (failedItemsCount body),
      ''    - New items: '' @ show_nat (newItemsCount body),
      ''    - Deleted items: '' @ show_nat (deletedItemsCount body),
      ''    - Passed items: '' @ show_nat (passedItemsCount body),
      ''    '' @ (if shortDescription body then '' - Short descriptions enabled'' else []),
      ''    '' @ (if truthy (reportUrl body)
                  then '' - [Report URL]('' @ tmpl (reportUrl body) @ '')'' else [])]"
proof -
  assume url: "newline \<notin> set (tmpl (reportUrl body))"
  have last_line:
    "split_on newline (tmpl (reportUrl body) @ '')'') = [tmpl (reportUrl body) @ '')'']"
    using url by (intro split_on_no_sep) (simp add: newline_def)
  have other: "\<And>c. c \<noteq> CHR 0x0A \<Longrightarrow> (c = newline) = False"
    by (simp add: newline_def)
  show ?thesis
    unfolding lines_of_def createCommentBody_def
    by (simp add: count_line last_line other)
qed

theorem comment_body_lines_witness:
  "newline \<notin> set ''https://example.org/r''
   \<and> lines_of (createCommentBody
        (example_body\<lparr>shortDescription := True, reportUrl := Some ''https://example.org/r''\<rparr>)) =
     [''Comparison result:'',
      ''    - Failed items: 2'',
      ''    - New items: 0'',
      ''    - Deleted items: 1'',
      ''    - Passed items: 5'',
      ''     - Short descriptions enabled'',
      ''     - [Report URL](https://example.org/r)'']"
  using comment_body_lines
    [of "example_body\<lparr>shortDescription := True, reportUrl := Some ''https://example.org/r''\<rparr>"]
  by (simp add: example_body_def tmpl_def truthy_def newline_def show_nat.simps digit_char_def)

subsection \<open>The notification\<close>

lemmas notify_defs =
  notify_def sha1_of_def statusPhase_def commentPhase_def finish_def andThen_def

lemmas request_defs =
  statusParams_def prCommentBody_def listParams_def commentParams_def state_of_def
  description_of_def errorHandler_def isGhAppError_def truthy_def tmpl_def

subsection \<open>Each piece of the notification reports its one failure\<close>










text \<open>
  Claim C9. With the commit status and the comment both disabled, the call sends
  nothing to the remote service and its promise is resolved, so no failure is reported,
  whatever the HEAD is.
\<close>

theorem nothing_enabled_nothing_sent:
  "\<not> setCommitStatus this \<Longrightarrow> \<not> prComment this \<Longrightarrow>
   calls (notify this octokit head params) = []
   \<and> result (notify this octokit head params) = Resolved"
  by (simp add: notify_defs split: option.splits)

theorem nothing_enabled_nothing_sent_witness:
  "\<not> setCommitStatus (example_plugin\<lparr>setCommitStatus := False, prComment := False\<rparr>)
   \<and> \<not> prComment (example_plugin\<lparr>setCommitStatus := False, prComment := False\<rparr>)
   \<and> calls (notify (example_plugin\<lparr>setCommitStatus := False, prComment := False\<rparr>)
        octokit_status_fails branch_head example_params) = []
   \<and> result (notify (example_plugin\<lparr>setCommitStatus := False, prComment := False\<rparr>)
        octokit_status_fails branch_head example_params) = Resolved"
  using nothing_enabled_nothing_sent
    [of "example_plugin\<lparr>setCommitStatus := False, prComment := False\<rparr>"
        octokit_status_fails branch_head example_params]
  by simp

text \<open>
  Claim C1 fails as stated: with the commit status and the comment enabled and HEAD on
  a branch, a failing status update is logged and then rejects the promise of the call.
  The status update is the only request sent: the pull requests are never listed.
\<close>

theorem status_failure_stops_the_call:
  "notify example_plugin octokit_status_fails branch_head example_params =
     \<lparr>result = Rejected (ErrorObject ''bad credentials''),
      calls = [CreateCommitStatus
                 \<lparr>cs_owner = Some ''acme'', cs_repo = Some ''site'', cs_sha = ''abc123'',
                  cs_state = ''failure'', cs_description = ''Regression testing failed'',
                  cs_context = ''regression-tests'', cs_target_url = None\<rparr>],
      log = [LogError ''bad credentials'']\<rparr>"
  by (simp add: notify_defs example_plugin_def example_params_def example_logger_def branch_head_def
      octokit_status_fails_def octokit_ok_def bad_credentials_def request_defs)

text \<open>
  Claim C1, amended. When the commit status is enabled and the status update fails,
  the handler reports the failure (it logs the message of a status code error) and the
  call rejects with it at once: no other request is sent, so the comment phase is not
  attempted. When the status update is disabled or succeeds, the comment is enabled and
  HEAD is on a branch, the comment phase is attempted: the pull requests of the branch
  are listed.
\<close>

theorem status_failure_rejects_else_comment_attempted:
  "(setCommitStatus this \<and> sha1_of head = Some sha1
      \<and> createCommitStatus octokit (statusParams this params sha1) = Inl err
    \<longrightarrow> notify this octokit head params =
          \<lparr>result = Rejected (snd (errorHandler err)),
           calls = [CreateCommitStatus (statusParams this params sha1)],
           log = fst (errorHandler err)\<rparr>)
   \<and> (prComment this \<and> head_type head = ''branch'' \<and> head_branch head = Some b
      \<and> (setCommitStatus this \<longrightarrow>
           createCommitStatus octokit (statusParams this params (branch_commit_hash b)) = Inr ())
    \<longrightarrow> PullsList (listParams this (prCommentBody this params b (branch_commit_hash b)))
          \<in> set (calls (notify this octokit head params)))"
  by (auto simp add: notify_defs Let_def split: sum.splits list.splits)

theorem status_failure_rejects_else_comment_attempted_witness:
  "notify example_plugin octokit_status_fails branch_head example_params =
     \<lparr>result = Rejected (snd (errorHandler bad_credentials)),
      calls = [CreateCommitStatus (statusParams example_plugin example_params ''abc123'')],
      log = fst (errorHandler bad_credentials)\<rparr>
   \<and> PullsList (listParams example_plugin
        (prCommentBody example_plugin example_params
           \<lparr>branch_name = ''feature'', branch_commit_hash = ''abc123''\<rparr> ''abc123''))
      \<in> set (calls (notify example_plugin octokit_ok branch_head example_params))"
  using status_failure_rejects_else_comment_attempted
    [of example_plugin branch_head "''abc123''" octokit_status_fails example_params
        bad_credentials "\<lparr>branch_name = ''feature'', branch_commit_hash = ''abc123''\<rparr>"]
    status_failure_rejects_else_comment_attempted
    [of example_plugin branch_head "''abc123''" octokit_ok example_params
        bad_credentials "\<lparr>branch_name = ''feature'', branch_commit_hash = ''abc123''\<rparr>"]
  by (simp add: sha1_of_def example_plugin_def example_params_def example_logger_def branch_head_def
      octokit_status_fails_def octokit_ok_def bad_credentials_def)



text \<open>
  Claim C7 fails as stated: on a detached HEAD with the comment and the commit status
  enabled, a failing status update rejects the call before the comment phase, so the
  warning is not logged.
\<close>

theorem detached_head_status_failure_no_warning:
  "notify example_plugin octokit_status_fails detached_head example_params =
     \<lparr>result = Rejected (ErrorObject ''bad credentials''),
      calls = [CreateCommitStatus
                 \<lparr>cs_owner = Some ''acme'', cs_repo = Some ''site'', cs_sha = ''def456'',
                  cs_state = ''failure'', cs_description = ''Regression testing failed'',
                  cs_context = ''regression-tests'', cs_target_url = None\<rparr>],
      log = [LogError ''bad credentials'']\<rparr>"
  by (simp add: notify_defs example_plugin_def example_params_def example_logger_def detached_head_def
      octokit_status_fails_def octokit_ok_def bad_credentials_def request_defs)

text \<open>
  Claim C7, amended. On a detached HEAD (a commit and no branch) with the comment
  enabled, no pull request is listed and no comment is posted: the only request is the
  status update for the detached commit, sent when the commit status is enabled. The
  warning is logged and the call resolves when the status update is disabled or
  succeeds; when the status update fails the call rejects and the warning is not logged.
\<close>

theorem detached_head_posts_no_comment:
  "prComment this \<Longrightarrow> head_branch head = None \<Longrightarrow> head_commit head = Some c \<Longrightarrow>
   calls (notify this octokit head params)
     = (if setCommitStatus this then [CreateCommitStatus (statusParams this params c)] else [])
   \<and> cs_sha (statusParams this params c) = c
   \<and> (if setCommitStatus this
          \<and> thrown_by (createCommitStatus octokit (statusParams this params c)) \<noteq> None
       then LogWarn ''HEAD is not attached into any branches.''
              \<notin> set (log (notify this octokit head params))
            \<and> result (notify this octokit head params) \<noteq> Resolved
       else LogWarn ''HEAD is not attached into any branches.''
              \<in> set (log (notify this octokit head params))
            \<and> result (notify this octokit head params) = Resolved)"
  by (auto simp add: notify_defs thrown_by_def statusParams_def errorHandler_def
      split: sum.splits)

theorem detached_head_posts_no_comment_witness:
  "calls (notify example_plugin octokit_ok detached_head example_params)
     = [CreateCommitStatus (statusParams example_plugin example_params ''def456'')]
   \<and> LogWarn ''HEAD is not attached into any branches.''
        \<in> set (log (notify example_plugin octokit_ok detached_head example_params))
   \<and> result (notify example_plugin octokit_ok detached_head example_params) = Resolved
   \<and> LogWarn ''HEAD is not attached into any branches.''
        \<notin> set (log (notify example_plugin octokit_status_fails detached_head example_params))"
  using detached_head_posts_no_comment
    [of example_plugin detached_head "''def456''" octokit_ok example_params]
    detached_head_posts_no_comment
    [of example_plugin detached_head "''def456''" octokit_status_fails example_params]
  by (simp add: example_plugin_def example_params_def example_logger_def detached_head_def
      octokit_status_fails_def octokit_ok_def bad_credentials_def thrown_by_def)

text \<open>
  Claim C8. The lookup is the listing of the pull requests in the comment phase, which
  is reached when the comment is enabled, HEAD is on a branch and the status update is
  disabled or succeeded. When the list is not empty, the comment goes to its first
  element. When the list is empty, a warning is logged, no comment is posted and the
  call resolves: this is no error. When the listing itself fails, the call rejects with
  the failure, no warning on a missing pull request is logged and no comment is posted:
  a failure is not taken for an empty list.
\<close>

theorem lookup_first_or_none_or_failure:
  assumes "prComment this" and "head_type head = ''branch''" and "head_branch head = Some b"
    and "setCommitStatus this \<longrightarrow>
           createCommitStatus octokit (statusParams this params (branch_commit_hash b)) = Inr ()"
    and "body = prCommentBody this params b (branch_commit_hash b)"
    and "sent = (if setCommitStatus this
                 then [CreateCommitStatus (statusParams this params (branch_commit_hash b))]
                 else [])"
    and "warning = LogWarn (''No pull request found for branch '' @
                     yellow (logger this) (branch_name b) @ ''.'')"
  shows
    "(pulls_list octokit (listParams this body) = Inr (pr # rest) \<longrightarrow>
        calls (notify this octokit head params)
          = sent @ [PullsList (listParams this body), CreateComment (commentParams this body pr)]
        \<and> cc_issue_number (commentParams this body pr) = pr
        \<and> warning \<notin> set (log (notify this octokit head params)))
     \<and> (pulls_list octokit (listParams this body) = Inr [] \<longrightarrow>
        calls (notify this octokit head params) = sent @ [PullsList (listParams this body)]
        \<and> result (notify this octokit head params) = Resolved
        \<and> warning \<in> set (log (notify this octokit head params)))
     \<and> (pulls_list octokit (listParams this body) = Inl err \<longrightarrow>
        calls (notify this octokit head params) = sent @ [PullsList (listParams this body)]
        \<and> result (notify this octokit head params) = Rejected (snd (errorHandler err))
        \<and> warning \<notin> set (log (notify this octokit head params)))"
proof -
  have sha: "sha1_of head = Some (branch_commit_hash b)"
    using assms(3) by (simp add: sha1_of_def)
  have status: "statusPhase this octokit params (branch_commit_hash b) =
      \<lparr>result = Resolved, calls = sent,
       log = (if setCommitStatus this
              then [LogInfo (''Updated commit status for '' @
                      green (logger this) (branch_commit_hash b) @ '' .'')]
              else [])\<rparr>"
    using assms(4,6) by (simp add: statusPhase_def)
  have name: "branchName body = branch_name b"
    using assms(5) by (simp add: prCommentBody_def)
  have run: "notify this octokit head params =
      andThen (statusPhase this octokit params (branch_commit_hash b))
        (andThen (commentPhase this octokit head params (branch_commit_hash b)) (finish this))"
    using sha by (simp add: notify_def)
  have first: "pulls_list octokit (listParams this body) = Inr (pr # rest) \<Longrightarrow>
      calls (notify this octokit head params)
        = sent @ [PullsList (listParams this body), CreateComment (commentParams this body pr)]
      \<and> warning \<notin> set (log (notify this octokit head params))"
    unfolding run status
    using assms(1,2,3,5,7)
    by (auto simp add: andThen_def commentPhase_def finish_def errorHandler_def Let_def
        split: sum.splits)
  have none: "pulls_list octokit (listParams this body) = Inr [] \<Longrightarrow>
      calls (notify this octokit head params) = sent @ [PullsList (listParams this body)]
      \<and> result (notify this octokit head params) = Resolved
      \<and> warning \<in> set (log (notify this octokit head params))"
    unfolding run status
    using assms(1,2,3,5,7) name
    by (auto simp add: andThen_def commentPhase_def finish_def Let_def)
  have failed: "pulls_list octokit (listParams this body) = Inl err \<Longrightarrow>
      calls (notify this octokit head params) = sent @ [PullsList (listParams this body)]
      \<and> result (notify this octokit head params) = Rejected (snd (errorHandler err))
      \<and> warning \<notin> set (log (notify this octokit head params))"
    unfolding run status
    using assms(1,2,3,5,7)
    by (auto simp add: andThen_def commentPhase_def finish_def errorHandler_def Let_def)
  show ?thesis
    using first none failed by (simp add: commentParams_def)
qed

theorem lookup_first_or_none_or_failure_witness:
  "calls (notify example_plugin octokit_ok branch_head example_params)
     = [CreateCommitStatus (statusParams example_plugin example_params ''abc123''),
        PullsList \<lparr>pl_owner = Some ''acme'', pl_repo = Some ''site'', pl_head = ''acme:feature''\<rparr>,
        CreateComment
          \<lparr>cc_owner = Some ''acme'', cc_repo = Some ''site'', cc_issue_number = 7,
           cc_body = createCommentBody example_body\<rparr>]
   \<and> result (notify example_plugin octokit_no_pr branch_head example_params) = Resolved
   \<and> LogWarn ''No pull request found for branch feature.''
        \<in> set (log (notify example_plugin octokit_no_pr branch_head example_params))
   \<and> result (notify example_plugin octokit_list_fails branch_head example_params)
        = Rejected (Thrown network_error)
   \<and> LogWarn ''No pull request found for branch feature.''
        \<notin> set (log (notify example_plugin octokit_list_fails branch_head example_params))"
proof -
  let ?b = "\<lparr>branch_name = ''feature'', branch_commit_hash = ''abc123''\<rparr>"
  let ?body = "prCommentBody example_plugin example_params ?b ''abc123''"
  let ?sent = "[CreateCommitStatus (statusParams example_plugin example_params ''abc123'')]"
  let ?warning = "LogWarn ''No pull request found for branch feature.''"
  show ?thesis
    using lookup_first_or_none_or_failure
      [of example_plugin branch_head ?b octokit_ok example_params ?body ?sent ?warning 7 "[9]"]
      lookup_first_or_none_or_failure
      [of example_plugin branch_head ?b octokit_no_pr example_params ?body ?sent ?warning]
      lookup_first_or_none_or_failure
      [of example_plugin branch_head ?b octokit_list_fails example_params ?body ?sent ?warning
          _ _ network_error]
    by (simp add: example_plugin_def example_params_def example_logger_def branch_head_def
        octokit_ok_def octokit_no_pr_def octokit_list_fails_def network_error_def request_defs example_body_def eval_nat_numeral)
qed

text \<open>
  Claim C3 fails on the code: with the dry-run flag set, the commit status and the
  comment enabled and HEAD on a branch with a pull request, the status update and the
  comment are both sent to the remote service, as they are without the flag. The flag
  is read after both phases.
\<close>

theorem dry_run_still_sends:
  "calls (notify (example_plugin\<lparr>noEmit := True\<rparr>) octokit_ok branch_head example_params)
     = [CreateCommitStatus
          \<lparr>cs_owner = Some ''acme'', cs_repo = Some ''site'', cs_sha = ''abc123'',
           cs_state = ''failure'', cs_description = ''Regression testing failed'',
           cs_context = ''regression-tests'', cs_target_url = None\<rparr>,
        PullsList \<lparr>pl_owner = Some ''acme'', pl_repo = Some ''site'', pl_head = ''acme:feature''\<rparr>,
        CreateComment
          \<lparr>cc_owner = Some ''acme'', cc_repo = Some ''site'', cc_issue_number = 7,
           cc_body = createCommentBody example_body\<rparr>]
   \<and> calls (notify (example_plugin\<lparr>noEmit := True\<rparr>) octokit_ok branch_head example_params)
     = calls (notify example_plugin octokit_ok branch_head example_params)"
  by (simp add: notify_defs example_plugin_def example_params_def example_logger_def branch_head_def
      octokit_ok_def request_defs example_body_def eval_nat_numeral)

text \<open>For every input, the dry-run flag changes neither the requests nor the result.\<close>

lemma statusPhase_ignores_noEmit:
  "statusPhase (this\<lparr>noEmit := flag\<rparr>) octokit params sha1 = statusPhase this octokit params sha1"
  by (simp add: statusPhase_def statusParams_def cong: sum.case_cong)

lemma commentPhase_ignores_noEmit:
  "commentPhase (this\<lparr>noEmit := flag\<rparr>) octokit head params sha1
     = commentPhase this octokit head params sha1"
  by (simp add: commentPhase_def prCommentBody_def listParams_def commentParams_def Let_def
      cong: sum.case_cong option.case_cong list.case_cong)

lemma andThen_finish:
  "calls (andThen a (finish this)) = calls a \<and> result (andThen a (finish this)) = result a"
  by (cases "result a") (simp_all add: andThen_def finish_def)

lemma andThen_tail:
  "calls b = calls b' \<Longrightarrow> result b = result b' \<Longrightarrow>
   calls (andThen a b) = calls (andThen a b') \<and> result (andThen a b) = result (andThen a b')"
  by (cases "result a") (simp_all add: andThen_def)

lemma dry_run_flag_only_stops_the_spinner:
  "calls (notify (this\<lparr>noEmit := flag\<rparr>) octokit head params) = calls (notify this octokit head params)
   \<and> result (notify (this\<lparr>noEmit := flag\<rparr>) octokit head params)
     = result (notify this octokit head params)"
proof (cases "sha1_of head")
  case None
  then show ?thesis by (simp add: notify_def)
next
  case (Some sha1)
  let ?c = "commentPhase this octokit head params sha1"
  have "calls (andThen ?c (finish (this\<lparr>noEmit := flag\<rparr>))) = calls (andThen ?c (finish this))"
    and "result (andThen ?c (finish (this\<lparr>noEmit := flag\<rparr>))) = result (andThen ?c (finish this))"
    by (simp_all add: andThen_finish)
  from andThen_tail [OF this] show ?thesis
    using Some
    by (simp add: notify_def statusPhase_ignores_noEmit commentPhase_ignores_noEmit)
qed

subsection \<open>Initialisation\<close>

text \<open>
  Claim C10. When the initialisation succeeds, the comment and the commit status are
  enabled for every value of their option but the literal \<open>false\<close>, so also when the
  option is absent; the comment behaviour is \<open>default\<close>, the short description is off
  and the configuration id is empty when their option is absent, and the value of the
  option otherwise. The initialisation succeeds whenever no client id is configured.
\<close>

theorem init_defaults:
  "(snd (init inflate endpoint config) = Inr this \<longrightarrow>
      prComment this = (o_prComment (c_options config) \<noteq> JBool False)
      \<and> setCommitStatus this = (o_setCommitStatus (c_options config) \<noteq> JBool False)
      \<and> p_behavior this =
          (case o_prCommentBehavior (c_options config) of None \<Rightarrow> BehaviorDefault | Some v \<Rightarrow> v)
      \<and> p_shortDescription this =
          (case o_shortDescription (c_options config) of None \<Rightarrow> False | Some v \<Rightarrow> v)
      \<and> p_regconfigId this =
          (case o_regconfigId (c_options config) of None \<Rightarrow> [] | Some v \<Rightarrow> v))
   \<and> (\<not> truthy (o_clientId (c_options config)) \<longrightarrow>
        (\<exists>this. snd (init inflate endpoint config) = Inr this))"
  by (auto simp add: init_def Let_def not_false_def nullish_or_def split: sum.splits)

theorem init_defaults_witness:
  "snd (init (\<lambda>s. None) ''https://gh.example.org'' example_config)
     = Inr (example_plugin\<lparr>apiOpt := \<lparr>owner = Some ''acme'', repository = Some ''site'',
                                        installationId = None\<rparr>\<rparr>)
   \<and> o_prComment (c_options example_config) = JUndefined
   \<and> o_setCommitStatus (c_options example_config) = JStr ''off''
   \<and> prComment (example_plugin\<lparr>apiOpt := \<lparr>owner = Some ''acme'', repository = Some ''site'',
                                        installationId = None\<rparr>\<rparr>)
   \<and> setCommitStatus (example_plugin\<lparr>apiOpt := \<lparr>owner = Some ''acme'', repository = Some ''site'',
                                        installationId = None\<rparr>\<rparr>)"
  using init_defaults
    [of "\<lambda>s. None" "''https://gh.example.org''" example_config
        "example_plugin\<lparr>apiOpt := \<lparr>owner = Some ''acme'', repository = Some ''site'',
                                        installationId = None\<rparr>\<rparr>"]
  by (simp add: example_config_def example_plugin_def init_def truthy_def not_false_def
      nullish_or_def)

end
